theory Spec2Isabelle
  imports Main "HOL-Library.Sublist"
begin

section \<open>The threads module of the HTTP client (src/modules/threads.ts)\<close>

text \<open>
  The class \<open>Threads\<close> turns each method call into calls of its collaborators: the
  HTTP primitives inherited from \<open>API\<close> (\<open>sendGet\<close>, \<open>sendPost\<close>, \<open>sendPut\<close>,
  \<open>sendDelete\<close>) and the sibling \<open>Schemas\<close> client. Neither collaborator is part of
  the file, so both are parameters of the model. A method is a function from the world
  before the call to its outcome and the world after it; the world holds the state of
  everything outside the client and the sequence of collaborator calls made so far.
\<close>

subsection \<open>Data\<close>

datatype ThreadType = Private | Read_only | Public | Open

datatype ThreadSharing = Not_shared | Invite_only | Shared

text \<open>The string a value of the literal union types is at run time.\<close>

fun ThreadType_str :: "ThreadType \<Rightarrow> string" where
  "ThreadType_str Private = ''private''"
| "ThreadType_str Read_only = ''read_only''"
| "ThreadType_str Public = ''public''"
| "ThreadType_str Open = ''open''"

fun ThreadSharing_str :: "ThreadSharing \<Rightarrow> string" where
  "ThreadSharing_str Not_shared = ''not_shared''"
| "ThreadSharing_str Invite_only = ''invite_only''"
| "ThreadSharing_str Shared = ''shared''"

text \<open>
  Modelled from the spec: the interfaces \<open>Thread\<close>, \<open>ThreadList\<close> and \<open>ContactList\<close>
  of models/index, which threads.ts imports. A thread has an identifier given by the
  daemon, a name, a key, a schema hash, a type, a sharing style and a whitelist; the
  two lists are objects with one field \<open>items\<close>. Key and schema are optional:
  \<open>None\<close> is a field the document does not have, and \<open>undefined === key\<close> is false
  for every string. The field \<open>id\<close> is written \<open>id'\<close>.
\<close>

record Thread =
  id' :: string
  key :: "string option"
  name :: string
  schema :: "string option"
  type :: string
  sharing :: string
  whitelist :: "string list"

record ThreadList =
  items :: "Thread list"

record Contact =
  address :: string
  peer :: string

datatype json =
    JThread Thread
  | JThreadList ThreadList
  | JContactList "Contact list"

datatype http_method = GET | POST | PUT | DELETE

text \<open>
  Modelled from the spec: a request as the primitives of core/api receive it, that is
  the verb with the arguments \<open>(url, args, opts, data)\<close> of \<open>sendPost\<close> and
  \<open>sendPut\<close>; \<open>sendGet\<close> and \<open>sendDelete\<close> are called with the url alone. An
  argument left out (\<open>undefined\<close>) is \<open>None\<close>. The object literal passed as \<open>opts\<close>
  is the list of its fields in the order they are written.
\<close>

record request =
  verb :: http_method
  url :: string
  args :: "string list option"
  opts :: "(string \<times> string) list option"
  data :: "Thread option"

text \<open>
  A response has the status the code compares with 204 and a body; \<open>None\<close> is a body
  that is no JSON document (an empty one, for instance), on which \<open>response.json()\<close>
  rejects.
\<close>

record response =
  status :: nat
  body :: "json option"

record FileIndex =
  hash :: string

datatype error =
    Rejected string      \<comment> \<open>a collaborator's promise was rejected\<close>
  | TransportError nat   \<comment> \<open>the transport base refused a response with this status\<close>
  | SyntaxError          \<comment> \<open>\<open>response.json()\<close> on a body that is no JSON\<close>
  | TypeError            \<comment> \<open>\<open>.find\<close> or \<open>.filter\<close> of a missing \<open>items\<close>\<close>

text \<open>The schema argument of \<open>add\<close>: \<open>schema?: string | object\<close>.\<close>

datatype 'o schema_arg = Undefined | Str string | Obj 'o

text \<open>What the client calls, in the order it calls it.\<close>

datatype 'o call =
    Http request
  | Schemas_add 'o
  | Schemas_defaultByName string

record ('d, 'o) world =
  daemon :: 'd
  calls :: "'o call list"

type_synonym ('d, 'o, 'a) async = "('d, 'o) world \<Rightarrow> (error + 'a) \<times> ('d, 'o) world"

text \<open>
  The instance: the transport behind the four primitives and the two methods of
  \<open>this.schemas\<close> that \<open>add\<close> uses. Each answers from the state of the world outside
  and may change it; each may reject.
\<close>

record ('d, 'o) Threads =
  transport :: "request \<Rightarrow> 'd \<Rightarrow> (error + response) \<times> 'd"
  schemas_add :: "'o \<Rightarrow> 'd \<Rightarrow> (error + FileIndex) \<times> 'd"
  schemas_defaultByName :: "string \<Rightarrow> 'd \<Rightarrow> (error + 'o option) \<times> 'd"

subsection \<open>Promises\<close>

definition resolve :: "'a \<Rightarrow> ('d, 'o, 'a) async" where
  "resolve x w = (Inr x, w)"

definition reject :: "error \<Rightarrow> ('d, 'o, 'a) async" where
  "reject e w = (Inl e, w)"

text \<open>\<open>const x = await m; f x\<close>: a rejection of \<open>m\<close> leaves the method at once.\<close>

definition await :: "('d, 'o, 'a) async \<Rightarrow> ('a \<Rightarrow> ('d, 'o, 'b) async) \<Rightarrow> ('d, 'o, 'b) async" where
  "await m f w = (case m w of (Inl e, w') \<Rightarrow> (Inl e, w') | (Inr x, w') \<Rightarrow> f x w')"

text \<open>A call of a collaborator is recorded, then answered from the outside state.\<close>

definition perform :: "'o call \<Rightarrow> ('d \<Rightarrow> (error + 'a) \<times> 'd) \<Rightarrow> ('d, 'o, 'a) async" where
  "perform c h w =
     (case h (daemon w) of (r, d') \<Rightarrow> (r, \<lparr>daemon = d', calls = calls w @ [c]\<rparr>))"

definition send :: "('d, 'o) Threads \<Rightarrow> request \<Rightarrow> ('d, 'o, response) async" where
  "send self rq = perform (Http rq) (transport self rq)"


text \<open>
  Modelled from the spec: the primitives \<open>sendGet\<close>, \<open>sendPost\<close>, \<open>sendPut\<close> and
  \<open>sendDelete\<close> of core/api, each issuing one request with its verb.
\<close>

definition sendGet :: "('d, 'o) Threads \<Rightarrow> string \<Rightarrow> ('d, 'o, response) async" where
  "sendGet self u = send self \<lparr>verb = GET, url = u, args = None, opts = None, data = None\<rparr>"

definition sendDelete :: "('d, 'o) Threads \<Rightarrow> string \<Rightarrow> ('d, 'o, response) async" where
  "sendDelete self u =
     send self \<lparr>verb = DELETE, url = u, args = None, opts = None, data = None\<rparr>"

definition sendPost ::
  "('d, 'o) Threads \<Rightarrow> string \<Rightarrow> string list option \<Rightarrow> (string \<times> string) list option \<Rightarrow>
   ('d, 'o, response) async" where
  "sendPost self u a ops =
     send self \<lparr>verb = POST, url = u, args = a, opts = ops, data = None\<rparr>"

definition sendPut ::
  "('d, 'o) Threads \<Rightarrow> string \<Rightarrow> string list option \<Rightarrow> (string \<times> string) list option \<Rightarrow>
   Thread option \<Rightarrow> ('d, 'o, response) async" where
  "sendPut self u a ops dat =
     send self \<lparr>verb = PUT, url = u, args = a, opts = ops, data = dat\<rparr>"

definition response_json :: "response \<Rightarrow> ('d, 'o, json) async" where
  "response_json r = (case body r of None \<Rightarrow> reject SyntaxError | Some j \<Rightarrow> resolve j)"

definition Schemas_add_call :: "('d, 'o) Threads \<Rightarrow> 'o \<Rightarrow> ('d, 'o, FileIndex) async" where
  "Schemas_add_call self ob = perform (Schemas_add ob) (schemas_add self ob)"

definition Schemas_defaultByName_call ::
  "('d, 'o) Threads \<Rightarrow> string \<Rightarrow> ('d, 'o, 'o option) async" where
  "Schemas_defaultByName_call self s =
     perform (Schemas_defaultByName s) (schemas_defaultByName self s)"

subsection \<open>JavaScript operators the methods use\<close>

text \<open>\<open>x || d\<close> on an optional string: \<open>undefined\<close> and the empty string are falsy.\<close>

definition js_or :: "string option \<Rightarrow> string \<Rightarrow> string" where
  "js_or x d = (case x of None \<Rightarrow> d | Some s \<Rightarrow> if s = [] then d else s)"

text \<open>\<open>Array.prototype.join\<close> on an array of strings.\<close>

fun join :: "string \<Rightarrow> string list \<Rightarrow> string" where
  "join sep [] = []"
| "join sep [x] = x"
| "join sep (x # y # ys) = x @ sep @ join sep (y # ys)"

subsection \<open>The methods\<close>

text \<open>
  Lines 53 to 69 of \<open>add\<close>: the value of \<open>targetSchema\<close> when the POST request is
  built; \<open>None\<close> is \<open>undefined\<close>. An object is truthy; a string is truthy unless it
  is empty.
\<close>

definition targetSchema ::
  "('d, 'o) Threads \<Rightarrow> 'o schema_arg \<Rightarrow> ('d, 'o, string option) async" where
  "targetSchema self sch =
     (case sch of
        Obj ob \<Rightarrow>
          await (Schemas_add_call self ob) (\<lambda>fileIndex. resolve (Some (hash fileIndex)))
      | Str s \<Rightarrow>
          if s \<noteq> [] then
            await (Schemas_defaultByName_call self s)
              (\<lambda>known. case known of
                   Some k \<Rightarrow>
                     await (Schemas_add_call self k) (\<lambda>added. resolve (Some (hash added)))
                 | None \<Rightarrow> resolve (Some s))
          else resolve None
      | Undefined \<Rightarrow> resolve None)"

text \<open>
  Lines 73 to 79: the object literal passed to \<open>sendPost\<close>; its first argument
  here is the value of \<open>targetSchema || \<close>\<open>''\<close>.
\<close>

definition add_opts ::
  "string \<Rightarrow> string option \<Rightarrow> ThreadType option \<Rightarrow> ThreadSharing option \<Rightarrow>
   string list option \<Rightarrow> (string \<times> string) list" where
  "add_opts schema_value ky ty sh wl =
     [(''schema'', schema_value),
      (''key'', js_or ky []),
      (''type'', js_or (map_option ThreadType_str ty) ''private''),
      (''sharing'', js_or (map_option ThreadSharing_str sh) ''not_shared''),
      (''whitelist'', join '','' (case wl of None \<Rightarrow> [] | Some xs \<Rightarrow> xs))]"

definition add ::
  "('d, 'o) Threads \<Rightarrow> string \<Rightarrow> 'o schema_arg \<Rightarrow> string option \<Rightarrow> ThreadType option \<Rightarrow>
   ThreadSharing option \<Rightarrow> string list option \<Rightarrow> ('d, 'o, json) async" where
  "add self nm sch ky ty sh wl =
     await (targetSchema self sch)
       (\<lambda>target.
          await (sendPost self ''threads'' (Some [nm])
                   (Some (add_opts (js_or target []) ky ty sh wl)))
            response_json)"

text \<open>
  \<open>addOrUpdate\<close> calls \<open>sendPut\<close> without awaiting it and returns nothing: whatever
  the call answers, also a rejection, is dropped.
\<close>

definition addOrUpdate :: "('d, 'o) Threads \<Rightarrow> string \<Rightarrow> Thread \<Rightarrow> ('d, 'o, unit) async" where
  "addOrUpdate self thread info w =
     (case sendPut self (''threads/'' @ thread) None None (Some info) w of
        (_, w') \<Rightarrow> (Inr (), w'))"

definition get :: "('d, 'o) Threads \<Rightarrow> string \<Rightarrow> ('d, 'o, json) async" where
  "get self thread = await (sendGet self (''threads/'' @ thread)) response_json"

text \<open>
  \<open>threads.items\<close> with the scan that follows. The cast to \<open>ThreadList\<close> is not
  checked, so the field is read from whatever document arrived. A thread list gives
  its threads. A contact list has items too, but a contact has neither \<open>key\<close> nor
  \<open>name\<close>: \<open>thread.key === key\<close> and \<open>thread.name === name\<close> are false on each of
  them, and the scan selects what the scan of no thread selects. A single thread has no
  \<open>items\<close>, and calling \<open>.find\<close> or \<open>.filter\<close> on \<open>undefined\<close> throws.
\<close>

definition thread_items :: "json \<Rightarrow> ('d, 'o, Thread list) async" where
  "thread_items j =
     (case j of
        JThreadList threads \<Rightarrow> resolve (items threads)
      | JContactList contacts \<Rightarrow> resolve []
      | JThread thread \<Rightarrow> reject TypeError)"

definition getByKey :: "('d, 'o) Threads \<Rightarrow> string \<Rightarrow> ('d, 'o, Thread option) async" where
  "getByKey self ky =
     await (sendGet self ''threads'')
       (\<lambda>response. await (response_json response)
          (\<lambda>threads. await (thread_items threads)
             (\<lambda>its. resolve (find (\<lambda>thread. key thread = Some ky) its))))"

definition getByName :: "('d, 'o) Threads \<Rightarrow> string \<Rightarrow> ('d, 'o, Thread list) async" where
  "getByName self nm =
     await (sendGet self ''threads'')
       (\<lambda>response. await (response_json response)
          (\<lambda>threads. await (thread_items threads)
             (\<lambda>its. resolve (filter (\<lambda>thread. name thread = nm) its))))"

definition list :: "('d, 'o) Threads \<Rightarrow> ('d, 'o, json) async" where
  "list self = await (sendGet self ''threads'') response_json"

definition remove :: "('d, 'o) Threads \<Rightarrow> string \<Rightarrow> ('d, 'o, bool) async" where
  "remove self thread =
     await (sendDelete self (''threads/'' @ thread))
       (\<lambda>response. resolve (status response = 204))"

definition removeByKey :: "('d, 'o) Threads \<Rightarrow> string \<Rightarrow> ('d, 'o, bool) async" where
  "removeByKey self ky =
     await (getByKey self ky)
       (\<lambda>thread. case thread of
            None \<Rightarrow> resolve False
          | Some t \<Rightarrow>
              await (sendDelete self (''threads/'' @ id' t))
                (\<lambda>response. resolve (status response = 204)))"

text \<open>
  \<open>peers\<close> is documented with a default thread, so the argument may be left out:
  \<open>None\<close> is \<open>undefined\<close>.
\<close>

definition peers :: "('d, 'o) Threads \<Rightarrow> string option \<Rightarrow> ('d, 'o, json) async" where
  "peers self thread =
     await (sendGet self (''threads/'' @ js_or thread ''default'' @ ''/peers'')) response_json"

definition rename :: "('d, 'o) Threads \<Rightarrow> string \<Rightarrow> string \<Rightarrow> ('d, 'o, bool) async" where
  "rename self thread nm =
     await (sendPut self (''threads/'' @ thread @ ''/name'') None None None)
       (\<lambda>response. resolve (status response = 204))"

subsection \<open>A daemon to run the methods on\<close>

text \<open>
  Two stored threads with the same key; the outside state counts the calls answered.
  A list request is answered with both threads, a DELETE or PUT below \<open>threads/a1\<close>
  with 204 and any other one with 404; \<open>media\<close> is the one default schema.
\<close>

definition thread_a :: Thread where
  "thread_a = \<lparr>id' = ''a1'', key = Some ''k'', name = ''chat'', schema = None, type = ''open'',
                sharing = ''shared'', whitelist = []\<rparr>"

definition thread_b :: Thread where
  "thread_b = \<lparr>id' = ''b2'', key = Some ''k'', name = ''notes'', schema = None, type = ''private'',
                sharing = ''not_shared'', whitelist = []\<rparr>"

definition demo_transport :: "request \<Rightarrow> nat \<Rightarrow> (error + response) \<times> nat" where
  "demo_transport rq d =
     (if verb rq = GET
      then Inr \<lparr>status = 200, body = Some (JThreadList \<lparr>items = [thread_a, thread_b]\<rparr>)\<rparr>
      else if take 10 (url rq) = ''threads/a1'' then Inr \<lparr>status = 204, body = None\<rparr>
      else Inr \<lparr>status = 404, body = None\<rparr>,
      Suc d)"

definition demo :: "(nat, string) Threads" where
  "demo = \<lparr>transport = demo_transport,
            schemas_add = (\<lambda>ob d. (Inr \<lparr>hash = ''Qm'' @ ob\<rparr>, Suc d)),
            schemas_defaultByName =
              (\<lambda>s d. (Inr (if s = ''media'' then Some ''media-schema'' else None), d))\<rparr>"

definition world0 :: "(nat, string) world" where
  "world0 = \<lparr>daemon = 0, calls = []\<rparr>"



section \<open>Properties\<close>

subsection \<open>Running the collaborator calls\<close>

lemma send_run:
  "transport self rq (daemon w) = (r, d') \<Longrightarrow>
   send self rq w = (r, \<lparr>daemon = d', calls = calls w @ [Http rq]\<rparr>)"
  by (simp add: send_def perform_def)

lemma perform_run:
  "h (daemon w) = (r, d') \<Longrightarrow> perform c h w = (r, \<lparr>daemon = d', calls = calls w @ [c]\<rparr>)"
  by (simp add: perform_def)

lemma thread_list_run:
  assumes "transport self \<lparr>verb = GET, url = ''threads'', args = None, opts = None, data = None\<rparr>
             (daemon w) = (Inr r, d')"
    and "body r = Some (JThreadList threads)"
  shows "await (sendGet self ''threads'')
           (\<lambda>response. await (response_json response)
              (\<lambda>threads. await (thread_items threads) (\<lambda>its. resolve (f its)))) w =
         (Inr (f (items threads)),
          \<lparr>daemon = d',
             calls = calls w @ [Http \<lparr>verb = GET, url = ''threads'', args = None,
                                      opts = None, data = None\<rparr>]\<rparr>)"
  using assms
  by (simp add: sendGet_def send_run await_def response_json_def thread_items_def resolve_def)

lemma getByKey_run:
  assumes "transport self \<lparr>verb = GET, url = ''threads'', args = None, opts = None, data = None\<rparr>
             (daemon w) = (Inr r, d')"
    and "body r = Some (JThreadList threads)"
  shows "getByKey self ky w =
         (Inr (find (\<lambda>thread. key thread = Some ky) (items threads)),
          \<lparr>daemon = d',
             calls = calls w @ [Http \<lparr>verb = GET, url = ''threads'', args = None,
                                      opts = None, data = None\<rparr>]\<rparr>)"
  unfolding getByKey_def using assms by (rule thread_list_run)

lemma getByName_run:
  assumes "transport self \<lparr>verb = GET, url = ''threads'', args = None, opts = None, data = None\<rparr>
             (daemon w) = (Inr r, d')"
    and "body r = Some (JThreadList threads)"
  shows "getByName self nm w =
         (Inr (filter (\<lambda>thread. name thread = nm) (items threads)),
          \<lparr>daemon = d',
             calls = calls w @ [Http \<lparr>verb = GET, url = ''threads'', args = None,
                                      opts = None, data = None\<rparr>]\<rparr>)"
  unfolding getByName_def using assms by (rule thread_list_run)

lemma count_list_filter:
  "count_list (filter P xs) x = (if P x then count_list xs x else 0)"
  by (induction xs) auto

lemma removeByKey_absent_run:
  assumes "transport self \<lparr>verb = GET, url = ''threads'', args = None, opts = None, data = None\<rparr>
             (daemon w) = (Inr r, d')"
    and "body r = Some (JThreadList threads)"
    and "find (\<lambda>thread. key thread = Some ky) (items threads) = None"
  shows "removeByKey self ky w =
         (Inr False,
          \<lparr>daemon = d',
             calls = calls w @ [Http \<lparr>verb = GET, url = ''threads'', args = None,
                                      opts = None, data = None\<rparr>]\<rparr>)"
  using assms(3)
  by (simp add: removeByKey_def await_def getByKey_run [OF assms(1,2)] resolve_def)

lemma removeByKey_present_run:
  assumes "transport self \<lparr>verb = GET, url = ''threads'', args = None, opts = None, data = None\<rparr>
             (daemon w) = (Inr r, d')"
    and "body r = Some (JThreadList threads)"
    and "find (\<lambda>thread. key thread = Some ky) (items threads) = Some t"
    and "transport self \<lparr>verb = DELETE, url = ''threads/'' @ id' t, args = None,
                           opts = None, data = None\<rparr> d' = (dr, d'')"
  shows "removeByKey self ky w =
         (case dr of Inl e \<Rightarrow> Inl e | Inr x \<Rightarrow> Inr (status x = 204),
          \<lparr>daemon = d'',
             calls = calls w @
               [Http \<lparr>verb = GET, url = ''threads'', args = None, opts = None,
                       data = None\<rparr>,
                Http \<lparr>verb = DELETE, url = ''threads/'' @ id' t, args = None,
                       opts = None, data = None\<rparr>]\<rparr>)"
  using assms(3,4)
  by (simp add: removeByKey_def await_def getByKey_run [OF assms(1,2)] resolve_def
      sendDelete_def send_def perform_def split: sum.splits)

lemma post_calls:
  "calls (snd (await (sendPost self u a ops) response_json w)) =
   calls w @ [Http \<lparr>verb = POST, url = u, args = a, opts = ops, data = None\<rparr>]"
  by (simp add: await_def sendPost_def send_def perform_def response_json_def resolve_def
      reject_def split: prod.splits sum.splits option.splits)

lemma targetSchema_Obj:
  "schemas_add self ob (daemon w) = (Inr fi, d1) \<Longrightarrow>
   targetSchema self (Obj ob) w =
     (Inr (Some (hash fi)), \<lparr>daemon = d1, calls = calls w @ [Schemas_add ob]\<rparr>)"
  by (simp add: targetSchema_def await_def Schemas_add_call_def perform_run resolve_def)

lemma targetSchema_known:
  "s \<noteq> [] \<Longrightarrow> schemas_defaultByName self s (daemon w) = (Inr (Some k), d1) \<Longrightarrow>
   schemas_add self k d1 = (Inr fi, d2) \<Longrightarrow>
   targetSchema self (Str s) w =
     (Inr (Some (hash fi)),
      \<lparr>daemon = d2, calls = calls w @ [Schemas_defaultByName s, Schemas_add k]\<rparr>)"
  by (simp add: targetSchema_def await_def Schemas_add_call_def Schemas_defaultByName_call_def
      perform_run resolve_def)

lemma targetSchema_unknown:
  "schemas_defaultByName self s (daemon w) = (Inr None, d1) \<Longrightarrow>
   targetSchema self (Str s) w =
     (if s = [] then (Inr None, w)
      else (Inr (Some s), \<lparr>daemon = d1, calls = calls w @ [Schemas_defaultByName s]\<rparr>))"
  by (simp add: targetSchema_def await_def Schemas_defaultByName_call_def
      perform_run resolve_def)

lemma targetSchema_falsy:
  "targetSchema self (Str []) w = (Inr None, w)" "targetSchema self Undefined w = (Inr None, w)"
  by (simp_all add: targetSchema_def resolve_def)

lemma add_after_target:
  "targetSchema self sch w = (Inr target, w') \<Longrightarrow>
   calls (snd (add self nm sch ky ty sh wl w)) =
   calls w' @ [Http \<lparr>verb = POST, url = ''threads'', args = Some [nm],
                       opts = Some (add_opts (js_or target []) ky ty sh wl), data = None\<rparr>]"
  unfolding add_def by (simp add: await_def [of "targetSchema self sch"] post_calls)

text \<open>
  A rejection of the transport is not turned into \<open>false\<close>: it leaves \<open>remove\<close> and
  \<open>rename\<close> as it came.
\<close>

lemma remove_rejection:
  "transport self \<lparr>verb = DELETE, url = ''threads/'' @ thread, args = None, opts = None,
                    data = None\<rparr> (daemon w) = (Inl e, dd) \<Longrightarrow>
   fst (remove self thread w) = Inl e"
  by (simp add: remove_def sendDelete_def send_run await_def)

lemma rename_rejection:
  "transport self \<lparr>verb = PUT, url = ''threads/'' @ thread @ ''/name'', args = None,
                    opts = None, data = None\<rparr> (daemon w) = (Inl e, dp) \<Longrightarrow>
   fst (rename self thread nm w) = Inl e"
  by (simp add: rename_def sendPut_def send_run await_def)

text \<open>
  What a list request answered with a contact list leads to: no thread is found, and
  nothing is deleted.
\<close>

lemma contact_list_document:
  assumes "transport self \<lparr>verb = GET, url = ''threads'', args = None, opts = None, data = None\<rparr>
             (daemon w) = (Inr r, d')"
    and "body r = Some (JContactList contacts)"
  shows "fst (getByKey self ky w) = Inr None"
    and "fst (getByName self nm w) = Inr []"
    and "removeByKey self ky w =
           (Inr False,
            \<lparr>daemon = d',
               calls = calls w @ [Http \<lparr>verb = GET, url = ''threads'', args = None,
                                        opts = None, data = None\<rparr>]\<rparr>)"
  using assms
  by (simp_all add: removeByKey_def getByKey_def getByName_def sendGet_def send_run await_def
      response_json_def thread_items_def resolve_def)


subsection \<open>The example daemon answers the list request\<close>

lemma demo_list:
  "transport demo \<lparr>verb = GET, url = ''threads'', args = None, opts = None, data = None\<rparr>
     (daemon world0) =
   (Inr \<lparr>status = 200, body = Some (JThreadList \<lparr>items = [thread_a, thread_b]\<rparr>)\<rparr>, Suc 0)"
  by (simp add: demo_def demo_transport_def world0_def)

lemma demo_body:
  "body \<lparr>status = 200, body = Some (JThreadList \<lparr>items = [thread_a, thread_b]\<rparr>)\<rparr> =
   Some (JThreadList \<lparr>items = [thread_a, thread_b]\<rparr>)"
  by simp


subsection \<open>rename\<close>

text \<open>
  C1. For every thread id and every name, \<open>rename\<close> issues a single PUT request to
  \<open>threads/{thread}/name\<close> with no args, no opts and no body, and neither its result
  nor the world after it depends on the name: any two names give the same call, so the
  new name is not transmitted.
\<close>

theorem rename_ignores_name:
  "calls (snd (rename self thread n1 w)) =
     calls w @ [Http \<lparr>verb = PUT, url = ''threads/'' @ thread @ ''/name'',
                      args = None, opts = None, data = None\<rparr>]
   \<and> rename self thread n1 w = rename self thread n2 w"
  by (simp add: rename_def sendPut_def send_def perform_def await_def resolve_def
      split: prod.splits sum.splits)

subsection \<open>add: schema resolution\<close>

text \<open>
  C2. \<open>add\<close> resolves its schema argument in three ways. An object is submitted once
  through the \<open>add\<close> method of the schemas client, and the hash of the answer is the
  schema value of the POST request. A non-empty string that the schemas client knows as
  a default is looked up, the default found is added, and the hash of that answer is
  the schema value. A string the schemas client does not know is the schema value
  itself, unchanged and unchecked; the schemas client is asked about it unless it is
  empty. The calls listed are all the calls made, and the first argument of
  \<open>add_opts\<close> is the schema field of the request.
\<close>

theorem add_schema_resolution:
  "(schemas_add self ob (daemon w) = (Inr fi, da) \<longrightarrow>
      calls (snd (add self nm (Obj ob) ky ty sh wl w)) =
        calls w @ [Schemas_add ob,
                   Http \<lparr>verb = POST, url = ''threads'', args = Some [nm],
                          opts = Some (add_opts (hash fi) ky ty sh wl), data = None\<rparr>])
   \<and> (s \<noteq> [] \<and> schemas_defaultByName self s (daemon w) = (Inr (Some k), db) \<and>
      schemas_add self k db = (Inr fi', dc) \<longrightarrow>
      calls (snd (add self nm (Str s) ky ty sh wl w)) =
        calls w @ [Schemas_defaultByName s, Schemas_add k,
                   Http \<lparr>verb = POST, url = ''threads'', args = Some [nm],
                          opts = Some (add_opts (hash fi') ky ty sh wl), data = None\<rparr>])
   \<and> (schemas_defaultByName self s' (daemon w) = (Inr None, de) \<longrightarrow>
      calls (snd (add self nm (Str s') ky ty sh wl w)) =
        calls w @ (if s' = [] then [] else [Schemas_defaultByName s']) @
                  [Http \<lparr>verb = POST, url = ''threads'', args = Some [nm],
                          opts = Some (add_opts s' ky ty sh wl), data = None\<rparr>])
   \<and> (\<forall>v. map_of (add_opts v ky ty sh wl) ''schema'' = Some v)"
proof (intro conjI impI allI)
  fix v
  show "map_of (add_opts v ky ty sh wl) ''schema'' = Some v"
    by (simp add: add_opts_def)
next
  assume "schemas_add self ob (daemon w) = (Inr fi, da)"
  from add_after_target [OF targetSchema_Obj [OF this]]
  show "calls (snd (add self nm (Obj ob) ky ty sh wl w)) =
        calls w @ [Schemas_add ob,
                   Http \<lparr>verb = POST, url = ''threads'', args = Some [nm],
                          opts = Some (add_opts (hash fi) ky ty sh wl), data = None\<rparr>]"
    by (simp add: js_or_def)
next
  assume "s \<noteq> [] \<and> schemas_defaultByName self s (daemon w) = (Inr (Some k), db) \<and>
      schemas_add self k db = (Inr fi', dc)"
  then have "s \<noteq> []" and "schemas_defaultByName self s (daemon w) = (Inr (Some k), db)"
    and "schemas_add self k db = (Inr fi', dc)"
    by simp_all
  from add_after_target [OF targetSchema_known [OF this]]
  show "calls (snd (add self nm (Str s) ky ty sh wl w)) =
        calls w @ [Schemas_defaultByName s, Schemas_add k,
                   Http \<lparr>verb = POST, url = ''threads'', args = Some [nm],
                          opts = Some (add_opts (hash fi') ky ty sh wl), data = None\<rparr>]"
    by (simp add: js_or_def)
next
  assume u: "schemas_defaultByName self s' (daemon w) = (Inr None, de)"
  show "calls (snd (add self nm (Str s') ky ty sh wl w)) =
        calls w @ (if s' = [] then [] else [Schemas_defaultByName s']) @
                  [Http \<lparr>verb = POST, url = ''threads'', args = Some [nm],
                          opts = Some (add_opts s' ky ty sh wl), data = None\<rparr>]"
  proof (cases "s' = []")
    case True
    then show ?thesis
      by (simp add: add_after_target [OF targetSchema_falsy(1)] js_or_def)
  next
    case False
    with targetSchema_unknown [OF u]
    have "targetSchema self (Str s') w =
      (Inr (Some s'), \<lparr>daemon = de, calls = calls w @ [Schemas_defaultByName s']\<rparr>)"
      by simp
    from add_after_target [OF this] False show ?thesis
      by (simp add: js_or_def)
  qed
qed

theorem add_schema_resolution_witness:
  "calls (snd (add demo ''chat'' (Obj ''xx'') None None None None world0)) =
     [Schemas_add ''xx'',
      Http \<lparr>verb = POST, url = ''threads'', args = Some [''chat''],
             opts = Some [(''schema'', ''Qmxx''), (''key'', []), (''type'', ''private''),
                          (''sharing'', ''not_shared''), (''whitelist'', [])],
             data = None\<rparr>]
   \<and> calls (snd (add demo ''chat'' (Str ''media'') None None None None world0)) =
     [Schemas_defaultByName ''media'', Schemas_add ''media-schema'',
      Http \<lparr>verb = POST, url = ''threads'', args = Some [''chat''],
             opts = Some [(''schema'', ''Qmmedia-schema''), (''key'', []), (''type'', ''private''),
                          (''sharing'', ''not_shared''), (''whitelist'', [])],
             data = None\<rparr>]
   \<and> calls (snd (add demo ''chat'' (Str ''Qmabc'') None None None None world0)) =
     [Schemas_defaultByName ''Qmabc'',
      Http \<lparr>verb = POST, url = ''threads'', args = Some [''chat''],
             opts = Some [(''schema'', ''Qmabc''), (''key'', []), (''type'', ''private''),
                          (''sharing'', ''not_shared''), (''whitelist'', [])],
             data = None\<rparr>]"
proof -
  have a: "schemas_add demo ''xx'' (daemon world0) = (Inr \<lparr>hash = ''Qmxx''\<rparr>, Suc 0)"
    and k: "''media'' \<noteq> [] \<and>
      schemas_defaultByName demo ''media'' (daemon world0) = (Inr (Some ''media-schema''), 0) \<and>
      schemas_add demo ''media-schema'' 0 = (Inr \<lparr>hash = ''Qmmedia-schema''\<rparr>, Suc 0)"
    and u: "schemas_defaultByName demo ''Qmabc'' (daemon world0) = (Inr None, 0)"
    by (simp_all add: demo_def world0_def)
  note t = add_schema_resolution [where self = demo and w = world0 and nm = "''chat''"
      and ob = "''xx''" and fi = "\<lparr>hash = ''Qmxx''\<rparr>" and da = "Suc 0"
      and s = "''media''" and k = "''media-schema''" and db = 0
      and fi' = "\<lparr>hash = ''Qmmedia-schema''\<rparr>" and dc = "Suc 0"
      and s' = "''Qmabc''" and de = 0
      and ky = None and ty = None and sh = None and wl = None]
  from t a k u show ?thesis
    by (simp add: world0_def add_opts_def js_or_def)
qed

subsection \<open>add: defaults\<close>

text \<open>
  C3. For every name, \<open>add\<close> with nothing but the name makes one call, a POST to
  \<open>threads\<close> with the name as its only argument and the fields schema and key empty,
  type \<open>private\<close>, sharing \<open>not_shared\<close> and whitelist empty; the schemas client is
  not called.
\<close>

theorem add_defaults:
  "calls (snd (add self nm Undefined None None None None w)) =
     calls w @ [Http \<lparr>verb = POST, url = ''threads'', args = Some [nm],
                      opts = Some [(''schema'', []), (''key'', []), (''type'', ''private''),
                                   (''sharing'', ''not_shared''), (''whitelist'', [])],
                      data = None\<rparr>]"
  by (simp add: add_after_target [OF targetSchema_falsy(2)] add_opts_def js_or_def)

subsection \<open>Status 204\<close>




subsection \<open>removeByKey\<close>

text \<open>
  C5. Let the list request be answered with a thread list. If no item has the key,
  \<open>removeByKey\<close> resolves to \<open>false\<close> and the list request is its only call, so no
  DELETE is issued. If some item has the key, the calls are the list request followed
  by exactly one DELETE, to \<open>threads/{id}\<close> with the id of the first such item.
\<close>

theorem removeByKey_delete_first_match:
  assumes "transport self \<lparr>verb = GET, url = ''threads'', args = None, opts = None, data = None\<rparr>
             (daemon w) = (Inr r, d')"
    and "body r = Some (JThreadList threads)"
  shows "((\<forall>t \<in> set (items threads). key t \<noteq> Some ky) \<longrightarrow>
            fst (removeByKey self ky w) = Inr False \<and>
            calls (snd (removeByKey self ky w)) =
              calls w @ [Http \<lparr>verb = GET, url = ''threads'', args = None, opts = None,
                                data = None\<rparr>])
       \<and> (\<forall>i < length (items threads).
            key (items threads ! i) = Some ky \<and> (\<forall>j < i. key (items threads ! j) \<noteq> Some ky) \<longrightarrow>
            calls (snd (removeByKey self ky w)) =
              calls w @ [Http \<lparr>verb = GET, url = ''threads'', args = None, opts = None,
                                data = None\<rparr>,
                         Http \<lparr>verb = DELETE, url = ''threads/'' @ id' (items threads ! i),
                                args = None, opts = None, data = None\<rparr>])"
proof (intro conjI impI allI)
  assume "\<forall>t \<in> set (items threads). key t \<noteq> Some ky"
  then have "find (\<lambda>thread. key thread = Some ky) (items threads) = None"
    by (simp add: find_None_iff)
  from removeByKey_absent_run [OF assms this]
  show "fst (removeByKey self ky w) = Inr False"
    and "calls (snd (removeByKey self ky w)) =
              calls w @ [Http \<lparr>verb = GET, url = ''threads'', args = None, opts = None,
                                data = None\<rparr>]"
    by simp_all
next
  fix i
  assume i: "i < length (items threads)"
    and "key (items threads ! i) = Some ky \<and> (\<forall>j < i. key (items threads ! j) \<noteq> Some ky)"
  then have "find (\<lambda>thread. key thread = Some ky) (items threads) = Some (items threads ! i)"
    by (auto simp: find_Some_iff)
  moreover obtain dr d'' where
    "transport self \<lparr>verb = DELETE, url = ''threads/'' @ id' (items threads ! i),
                      args = None, opts = None, data = None\<rparr> d' = (dr, d'')"
    by (rule prod.exhaust)
  ultimately have "removeByKey self ky w =
         (case dr of Inl e \<Rightarrow> Inl e | Inr x \<Rightarrow> Inr (status x = 204),
          \<lparr>daemon = d'',
             calls = calls w @
               [Http \<lparr>verb = GET, url = ''threads'', args = None, opts = None,
                       data = None\<rparr>,
                Http \<lparr>verb = DELETE, url = ''threads/'' @ id' (items threads ! i),
                       args = None, opts = None, data = None\<rparr>]\<rparr>)"
    by (rule removeByKey_present_run [OF assms])
  then show "calls (snd (removeByKey self ky w)) =
              calls w @ [Http \<lparr>verb = GET, url = ''threads'', args = None, opts = None,
                                data = None\<rparr>,
                         Http \<lparr>verb = DELETE, url = ''threads/'' @ id' (items threads ! i),
                                args = None, opts = None, data = None\<rparr>]"
    by simp
qed

theorem removeByKey_delete_first_match_witness:
  "fst (removeByKey demo ''zz'' world0) = Inr False
   \<and> calls (snd (removeByKey demo ''zz'' world0)) =
       [Http \<lparr>verb = GET, url = ''threads'', args = None, opts = None, data = None\<rparr>]
   \<and> calls (snd (removeByKey demo ''k'' world0)) =
       [Http \<lparr>verb = GET, url = ''threads'', args = None, opts = None, data = None\<rparr>,
        Http \<lparr>verb = DELETE, url = ''threads/a1'', args = None, opts = None, data = None\<rparr>]"
proof -
  note t = removeByKey_delete_first_match [OF demo_list demo_body]
  have "fst (removeByKey demo ''zz'' world0) = Inr False \<and>
        calls (snd (removeByKey demo ''zz'' world0)) =
          [Http \<lparr>verb = GET, url = ''threads'', args = None, opts = None, data = None\<rparr>]"
    using t [of "''zz''", THEN conjunct1] by (simp add: thread_a_def thread_b_def world0_def)
  moreover have "calls (snd (removeByKey demo ''k'' world0)) =
       [Http \<lparr>verb = GET, url = ''threads'', args = None, opts = None, data = None\<rparr>,
        Http \<lparr>verb = DELETE, url = ''threads/a1'', args = None, opts = None, data = None\<rparr>]"
    using t [of "''k''", THEN conjunct2, rule_format, of 0]
    by (simp add: thread_a_def world0_def)
  ultimately show ?thesis by simp
qed

subsection \<open>getByKey\<close>

text \<open>
  C6. Let the list request be answered with a thread list. \<open>getByKey\<close> resolves to
  \<open>undefined\<close> exactly when no item has the key, and to an item exactly when that item
  is at the first position of the list whose key is the argument. The list request is
  its only call.
\<close>

theorem getByKey_first_match:
  assumes "transport self \<lparr>verb = GET, url = ''threads'', args = None, opts = None, data = None\<rparr>
             (daemon w) = (Inr r, d')"
    and "body r = Some (JThreadList threads)"
  shows "(fst (getByKey self ky w) = Inr None \<longleftrightarrow> (\<forall>t \<in> set (items threads). key t \<noteq> Some ky))
       \<and> (\<forall>t. fst (getByKey self ky w) = Inr (Some t) \<longleftrightarrow>
             (\<exists>i < length (items threads). items threads ! i = t \<and> key t = Some ky \<and>
                 (\<forall>j < i. key (items threads ! j) \<noteq> Some ky)))
       \<and> calls (snd (getByKey self ky w)) =
           calls w @ [Http \<lparr>verb = GET, url = ''threads'', args = None, opts = None,
                             data = None\<rparr>]"
proof -
  note run = getByKey_run [OF assms, of ky]
  have none: "fst (getByKey self ky w) = Inr None \<longleftrightarrow> (\<forall>t \<in> set (items threads). key t \<noteq> Some ky)"
    by (auto simp: run find_None_iff)
  have some: "fst (getByKey self ky w) = Inr (Some t) \<longleftrightarrow>
             (\<exists>i < length (items threads). items threads ! i = t \<and> key t = Some ky \<and>
                 (\<forall>j < i. key (items threads ! j) \<noteq> Some ky))" for t
    by (auto simp: run find_Some_iff)
  show ?thesis using none some by (simp add: run)
qed

theorem getByKey_first_match_witness:
  "fst (getByKey demo ''k'' world0) = Inr (Some thread_a)
   \<and> fst (getByKey demo ''zz'' world0) = Inr None
   \<and> calls (snd (getByKey demo ''k'' world0)) =
       [Http \<lparr>verb = GET, url = ''threads'', args = None, opts = None, data = None\<rparr>]"
proof -
  have "\<exists>i < length [thread_a, thread_b]. [thread_a, thread_b] ! i = thread_a \<and>
          key thread_a = Some ''k'' \<and> (\<forall>j < i. key ([thread_a, thread_b] ! j) \<noteq> Some ''k'')"
    by (rule exI [of _ 0]) (simp add: thread_a_def)
  moreover have "\<forall>t \<in> set [thread_a, thread_b]. key t \<noteq> Some ''zz''"
    by (simp add: thread_a_def thread_b_def)
  ultimately show ?thesis
    using getByKey_first_match [OF demo_list demo_body, of "''k''"]
      getByKey_first_match [OF demo_list demo_body, of "''zz''"]
    by (simp add: world0_def)
qed

subsection \<open>getByName\<close>

text \<open>
  C7. Let the list request be answered with a thread list. \<open>getByName\<close> resolves to
  the items whose name is the argument: a subsequence of the list, so in the order of
  the list, holding every item of that name as often as the list does and no other
  item; it is empty exactly when no item has the name.
\<close>

theorem getByName_all_matches:
  assumes "transport self \<lparr>verb = GET, url = ''threads'', args = None, opts = None, data = None\<rparr>
             (daemon w) = (Inr r, d')"
    and "body r = Some (JThreadList threads)"
  shows "\<exists>ys. fst (getByName self nm w) = Inr ys
          \<and> ys = filter (\<lambda>t. name t = nm) (items threads)
          \<and> subseq ys (items threads)
          \<and> (\<forall>t. count_list ys t = (if name t = nm then count_list (items threads) t else 0))
          \<and> (ys = [] \<longleftrightarrow> (\<forall>t \<in> set (items threads). name t \<noteq> nm))"
  by (auto simp: getByName_run [OF assms] count_list_filter filter_empty_conv)

theorem getByName_all_matches_witness:
  "fst (getByName demo ''chat'' world0) = Inr [thread_a]
   \<and> fst (getByName demo ''none'' world0) = Inr []"
  using getByName_all_matches [OF demo_list demo_body, of "''chat''"]
    getByName_all_matches [OF demo_list demo_body, of "''none''"]
  by (simp add: thread_a_def thread_b_def)

subsection \<open>addOrUpdate\<close>

text \<open>
  C8. For every thread id and every thread record, \<open>addOrUpdate\<close> makes exactly one
  call, a PUT to \<open>threads/{thread}\<close> with the record as the body, and it resolves to
  nothing whatever the transport answers: the outcome is the same for any two
  transports and any two worlds, so it tells the caller nothing about the response.
\<close>

theorem addOrUpdate_fire_and_forget:
  "calls (snd (addOrUpdate self thread info w)) =
     calls w @ [Http \<lparr>verb = PUT, url = ''threads/'' @ thread, args = None, opts = None,
                      data = Some info\<rparr>]
   \<and> fst (addOrUpdate self thread info w) = Inr ()
   \<and> fst (addOrUpdate self thread info w) = fst (addOrUpdate self2 thread info w2)"
  by (simp add: addOrUpdate_def sendPut_def send_def perform_def split: prod.splits)

subsection \<open>peers\<close>

text \<open>
  C9. \<open>peers\<close> with a falsy argument, left out or the empty string, issues a GET to
  \<open>threads/default/peers\<close>; with a non-empty argument it issues a GET to
  \<open>threads/{thread}/peers\<close>.
\<close>

theorem peers_default_thread:
  "calls (snd (peers self None w)) =
     calls w @ [Http \<lparr>verb = GET, url = ''threads/default/peers'', args = None, opts = None,
                      data = None\<rparr>]
   \<and> calls (snd (peers self (Some []) w)) =
     calls w @ [Http \<lparr>verb = GET, url = ''threads/default/peers'', args = None, opts = None,
                      data = None\<rparr>]
   \<and> (thread \<noteq> [] \<longrightarrow>
      calls (snd (peers self (Some thread) w)) =
        calls w @ [Http \<lparr>verb = GET, url = ''threads/'' @ thread @ ''/peers'', args = None,
                         opts = None, data = None\<rparr>])"
  by (simp add: peers_def js_or_def await_def sendGet_def send_def perform_def response_json_def
      resolve_def reject_def split: prod.splits sum.splits option.splits)

theorem peers_default_thread_witness:
  "calls (snd (peers demo (Some ''a1'') world0)) =
     [Http \<lparr>verb = GET, url = ''threads/a1/peers'', args = None, opts = None, data = None\<rparr>]
   \<and> calls (snd (peers demo (Some []) world0)) =
     [Http \<lparr>verb = GET, url = ''threads/default/peers'', args = None, opts = None,
            data = None\<rparr>]
   \<and> calls (snd (peers demo None world0)) =
     [Http \<lparr>verb = GET, url = ''threads/default/peers'', args = None, opts = None,
            data = None\<rparr>]"
  using peers_default_thread [of demo world0 "''a1''"]
  by (simp add: world0_def)

subsection \<open>add: the empty string as schema\<close>

text \<open>
  C10. For every name, \<open>add\<close> with the empty string as schema is equal, in outcome and
  in the world it leaves, to \<open>add\<close> with no schema, whatever the other arguments: the
  POST is the only call, so the schemas client is not called, and the schema field sent
  is the empty string.
\<close>

theorem add_empty_string_schema:
  "add self nm (Str []) ky ty sh wl w = add self nm Undefined ky ty sh wl w
   \<and> calls (snd (add self nm (Str []) ky ty sh wl w)) =
       calls w @ [Http \<lparr>verb = POST, url = ''threads'', args = Some [nm],
                        opts = Some (add_opts [] ky ty sh wl), data = None\<rparr>]
   \<and> map_of (add_opts [] ky ty sh wl) ''schema'' = Some []"
proof -
  have "add self nm (Str []) ky ty sh wl w = add self nm Undefined ky ty sh wl w"
    by (simp add: add_def await_def [of "targetSchema self _"] targetSchema_falsy)
  moreover have "calls (snd (add self nm (Str []) ky ty sh wl w)) =
       calls w @ [Http \<lparr>verb = POST, url = ''threads'', args = Some [nm],
                        opts = Some (add_opts [] ky ty sh wl), data = None\<rparr>]"
    by (simp add: add_after_target [OF targetSchema_falsy(1)] js_or_def)
  ultimately show ?thesis by (simp add: add_opts_def)
qed

end
